theory Spec2Isabelle
  imports Main
begin

section \<open>The invocation orchestrator \<open>ai\<close> of packages/core/src/services/ai/index.ts\<close>

text \<open>
  The function \<open>ai\<close> validates a request with the rule engine, resolves a language
  model, builds the tools and issues one streaming call. Everything it calls is imported:
  the imported functions are the fields of the record \<open>env\<close>, each returning either
  the value thrown (\<open>Inl\<close>) or its result (\<open>Inr\<close>). The model of \<open>ai\<close> returns how
  the call completed together with the list of calls it made, in order.
\<close>

subsection \<open>Values\<close>

text \<open>Plain JavaScript data, as found in a prompt configuration and in messages.
  Numbers are only copied, never computed with, so integers stand for them.\<close>

datatype jsval =
    JUndefined
  | JNull
  | JBool bool
  | JNum int
  | JStr string
  | JArr "jsval list"
  | JObj "(string \<times> jsval) list"

text \<open>An object is a finite map from its own property names to values.\<close>

type_synonym 'v object = "string \<rightharpoonup> 'v"

text \<open>A property of a \<open>Partial<...>\<close> object: no such key, the key with the value
  \<open>undefined\<close>, or the key with a value.\<close>

datatype 'f property = Absent | Undefined | Defined 'f

text \<open>Objects that \<open>ai\<close> only hands on are identified by a number: two of them are
  the same object exactly when the numbers agree.\<close>

datatype LanguageModel = LanguageModel nat
datatype AbortSignal = AbortSignal nat
datatype ToolSet = ToolSet nat
datatype Schema = Schema nat
datatype StreamTransform = StreamTransform nat
datatype handle = Handle nat

datatype thrown = Thrown string

type_synonym Message = jsval
type_synonym VercelConfig = "jsval object"
type_synonym JSONSchema7 = "(string \<times> jsval) list"
type_synonym Providers = string

datatype ObjectOutput = Output_object | Output_array | Output_no_schema

datatype StreamType = Type_object | Type_text

text \<open>\<open>ProviderApiKey\<close>: the field \<open>provider\<close> of the source is \<open>providerType\<close> here
  (the name line 137 gives it), \<open>url\<close> is \<open>None\<close> for \<open>null\<close>.\<close>

record ProviderApiKey =
  providerType :: Providers
  token :: string
  url :: "string option"

datatype RunErrorCodes = AIProviderConfigError | AIRunError | Unknown

record ChainError =
  code :: RunErrorCodes
  message :: string

datatype ('a, 'e) TypedResult = Result_ok 'a | Result_error 'e

record Rule =
  ruleMessage :: string

record AppliedRules =
  rules :: "Rule list"
  messages :: "Message list"
  config :: VercelConfig

subsection \<open>The options of a streaming call\<close>

record telemetry =
  isEnabled :: bool

text \<open>A value of the options object given to \<open>streamText\<close> or \<open>streamObject\<close>:
  either plain data copied from the configuration, or one of the values \<open>ai\<close> puts
  there itself.\<close>

datatype optval =
    Plain jsval
  | ModelVal LanguageModel
  | PromptVal "string option"
  | MessagesVal "Message list"
  | ToolsVal ToolSet
  | AbortSignalVal "AbortSignal option"
  | TelemetryVal telemetry
  | SchemaVal Schema
  | OutputVal ObjectOutput
  | TransformVal StreamTransform

type_synonym options = "optval object"

text \<open>The fields of the backend's results that \<open>ai\<close> copies into its own result
  (\<open>text'\<close> is the field \<open>text\<close>).\<close>

record StreamResult =
  fullStream :: handle
  usage :: handle
  providerMetadata :: handle

record StreamObjectResult = StreamResult +
  object :: handle

record StreamTextResult = StreamResult +
  text' :: handle
  reasoning :: handle
  toolCalls :: handle

text \<open>\<open>AIReturn\<close>: the fields picked from the backend's result, the tag \<open>type\<close> (the
  constructor) and \<open>providerName\<close>.\<close>

datatype AIReturn =
    AIReturnObject StreamObjectResult Providers
  | AIReturnText StreamTextResult Providers

fun type_of :: "AIReturn \<Rightarrow> StreamType" where
  "type_of (AIReturnObject r p) = Type_object"
| "type_of (AIReturnText r p) = Type_text"

fun providerName :: "AIReturn \<Rightarrow> Providers" where
  "providerName (AIReturnObject r p) = p"
| "providerName (AIReturnText r p) = p"

type_synonym AIResult = "(AIReturn, ChainError) TypedResult"

subsection \<open>The imported functions and the arguments\<close>

type_synonym ProviderAdapter = "jsval \<Rightarrow> jsval object \<Rightarrow> thrown + LanguageModel"
type_synonym StreamTextFn = "options \<Rightarrow> thrown + StreamTextResult"
type_synonym StreamObjectFn = "options \<Rightarrow> thrown + StreamObjectResult"

text \<open>
  Modelled from the spec: \<open>handleAICallAPIError\<close> (./handleError) is not among the
  sources. Section 4.5 gives its contract, \<open>translate(exception) \<rightarrow> ChainError<kind>\<close>:
  a total function from the value thrown to the domain error of the returned error
  result. The other fields are the functions imported from ./providers/rules, ./helpers,
  ./buildTools and the package \<open>ai\<close>; \<open>createProvider\<close> takes the fields of its argument
  object in the order messages, provider, apiKey, url, config.
\<close>

record env =
  applyAllRules :: "Providers \<Rightarrow> Message list \<Rightarrow> VercelConfig \<Rightarrow> thrown + AppliedRules"
  createProvider :: "Message list \<Rightarrow> ProviderApiKey \<Rightarrow> string \<Rightarrow> string option \<Rightarrow> VercelConfig
    \<Rightarrow> thrown + (ProviderAdapter, ChainError) TypedResult"
  buildTools :: "jsval \<Rightarrow> thrown + (ToolSet, ChainError) TypedResult"
  jsonSchema :: "JSONSchema7 \<Rightarrow> thrown + Schema"
  smoothStream :: "thrown + StreamTransform"
  originalStreamText :: StreamTextFn
  originalStreamObject :: StreamObjectFn
  handleAICallAPIError :: "thrown \<Rightarrow> ChainError"

record AISDKProvider =
  streamText :: "StreamTextFn property"
  streamObject :: "StreamObjectFn property"

text \<open>The argument of \<open>ai\<close>; \<open>messages\<close> and \<open>config\<close> carry the names the source
  binds them to, \<open>originalMessages\<close> and \<open>originalConfig\<close>; \<open>output'\<close> is \<open>output\<close>.\<close>

record ai_args =
  provider :: ProviderApiKey
  prompt :: "string option"
  originalMessages :: "Message list"
  originalConfig :: VercelConfig
  schema :: "JSONSchema7 option"
  output' :: "ObjectOutput option"
  customLanguageModel :: "LanguageModel option"
  aiSdkProvider :: "AISDKProvider option"
  abortSignal :: "AbortSignal option"

subsection \<open>Calls, completions and sequencing\<close>

datatype call =
    Call_applyAllRules Providers "Message list" VercelConfig
  | Call_createProvider "Message list" ProviderApiKey string "string option" VercelConfig
  | Call_providerAdapter jsval "jsval object"
  | Call_buildTools jsval
  | Call_jsonSchema JSONSchema7
  | Call_smoothStream
  | Call_streamObject options
  | Call_streamText options

datatype 'a completion = Return 'a | Throw thrown

text \<open>A step takes the calls made so far and gives its completion and the calls made
  after it.\<close>

type_synonym 'a step = "call list \<Rightarrow> 'a completion \<times> call list"

definition done_with :: "'a \<Rightarrow> 'a step" where
  "done_with x log = (Return x, log)"

definition throw :: "thrown \<Rightarrow> 'a step" where
  "throw e log = (Throw e, log)"

definition and_then :: "'a step \<Rightarrow> ('a \<Rightarrow> 'b step) \<Rightarrow> 'b step" where
  "and_then m f log =
     (case m log of
        (Throw e, log') \<Rightarrow> (Throw e, log')
      | (Return x, log') \<Rightarrow> f x log')"

text \<open>Calling an imported function: the call is recorded, then it returns or throws.\<close>

definition invoke :: "call \<Rightarrow> thrown + 'a \<Rightarrow> 'a step" where
  "invoke c r log =
     (case r of
        Inl e \<Rightarrow> (Throw e, log @ [c])
      | Inr x \<Rightarrow> (Return x, log @ [c]))"

text \<open>Calling the value of a property: a \<open>TypeError\<close> unless it is a function. The
  argument has been evaluated before.\<close>

definition invoke_property :: "string \<Rightarrow> ('x \<Rightarrow> call) \<Rightarrow> ('x \<Rightarrow> thrown + 'a) property \<Rightarrow> 'x \<Rightarrow> 'a step" where
  "invoke_property name c p x =
     (case p of
        Defined f \<Rightarrow> invoke (c x) (f x)
      | _ \<Rightarrow> throw (Thrown (''TypeError: '' @ name @ '' is not a function'')))"

subsection \<open>Helpers of the language and of lodash\<close>

definition get_prop :: "jsval object \<Rightarrow> string \<Rightarrow> jsval" where
  "get_prop obj k = (case obj k of None \<Rightarrow> JUndefined | Some v \<Rightarrow> v)"

definition nullish_coalesce :: "jsval \<Rightarrow> jsval \<Rightarrow> jsval" where
  "nullish_coalesce a b = (if a = JUndefined \<or> a = JNull then b else a)"

definition omit :: "'v object \<Rightarrow> string list \<Rightarrow> 'v object" where
  "omit obj ks = (\<lambda>k. if k \<in> set ks then None else obj k)"

fun join :: "string \<Rightarrow> string list \<Rightarrow> string" where
  "join sep [] = []"
| "join sep [x] = x"
| "join sep (x # y # ys) = x @ sep @ join sep (y # ys)"

text \<open>\<open>{...a, ...b}\<close> on one property: the property of \<open>b\<close> wins when \<open>b\<close> has the key.\<close>

definition spread_property :: "'f property \<Rightarrow> 'f property \<Rightarrow> 'f property" where
  "spread_property a b = (case b of Absent \<Rightarrow> a | _ \<Rightarrow> b)"

subsection \<open>The function \<open>ai\<close>\<close>

definition DEFAULT_AI_SDK_PROVIDER :: "env \<Rightarrow> AISDKProvider" where
  "DEFAULT_AI_SDK_PROVIDER env =
     \<lparr>streamText = Defined (originalStreamText env),
      streamObject = Defined (originalStreamObject env)\<rparr>"

text \<open>Lines 115 to 118: the defaults, overridden by the properties of \<open>aiSdkProvider\<close>.\<close>

definition sdk :: "env \<Rightarrow> ai_args \<Rightarrow> AISDKProvider" where
  "sdk env args =
     (let given = (case aiSdkProvider args of
                     None \<Rightarrow> \<lparr>streamText = Absent, streamObject = Absent\<rparr>
                   | Some p \<Rightarrow> p)
      in \<lparr>streamText = spread_property (streamText (DEFAULT_AI_SDK_PROVIDER env)) (streamText given),
          streamObject = spread_property (streamObject (DEFAULT_AI_SDK_PROVIDER env)) (streamObject given)\<rparr>)"

text \<open>Lines 130 to 132.\<close>

definition violations_message :: "Rule list \<Rightarrow> string" where
  "violations_message rs =
     ''There are rule violations:\<newline>'' @ join ''\<newline>'' (map (\<lambda>rule. ''- '' @ ruleMessage rule) rs)"

text \<open>Lines 155 to 159, the second argument of the adapter.\<close>

definition adapter_options :: "VercelConfig \<Rightarrow> jsval object" where
  "adapter_options cfg =
     [''cacheControl'' \<mapsto> nullish_coalesce (get_prop cfg ''cacheControl'') (JBool False)]
       ++ omit cfg [''providerOptions'']"

text \<open>Lines 164 to 176.\<close>

definition schemaLessConfig :: "VercelConfig \<Rightarrow> VercelConfig" where
  "schemaLessConfig cfg = omit cfg [''schema'']"

definition commonOptions :: "ai_args \<Rightarrow> VercelConfig \<Rightarrow> LanguageModel \<Rightarrow> Message list \<Rightarrow> ToolSet \<Rightarrow> options" where
  "commonOptions args cfg languageModel msgs tools =
     (map_option Plain \<circ> schemaLessConfig cfg)
       (''model'' \<mapsto> ModelVal languageModel,
        ''prompt'' \<mapsto> PromptVal (prompt args),
        ''messages'' \<mapsto> MessagesVal msgs,
        ''tools'' \<mapsto> ToolsVal tools,
        ''abortSignal'' \<mapsto> AbortSignalVal (abortSignal args),
        ''providerOptions'' \<mapsto> Plain (get_prop cfg ''providerOptions''),
        ''experimental_telemetry'' \<mapsto> TelemetryVal \<lparr>isEnabled = True\<rparr>)"

text \<open>Lines 178 to 212: the streaming call. The argument object is built, calling
  \<open>jsonSchema\<close> or \<open>smoothStream\<close>, before the backend function is called.\<close>

definition dispatch :: "env \<Rightarrow> ai_args \<Rightarrow> options \<Rightarrow> AIResult step" where
  "dispatch env args common =
     (case (schema args, output' args) of
        (Some s, Some out) \<Rightarrow>
          and_then (invoke (Call_jsonSchema s) (jsonSchema env s)) (\<lambda>js.
          and_then (invoke_property ''streamObject'' Call_streamObject (streamObject (sdk env args))
                      (common(''schema'' \<mapsto> SchemaVal js, ''output'' \<mapsto> OutputVal out))) (\<lambda>result.
          done_with (Result_ok (AIReturnObject result (providerType (provider args))))))
      | _ \<Rightarrow>
          and_then (invoke Call_smoothStream (smoothStream env)) (\<lambda>transform.
          and_then (invoke_property ''streamText'' Call_streamText (streamText (sdk env args))
                      (common(''experimental_transform'' \<mapsto> TransformVal transform))) (\<lambda>result.
          done_with (Result_ok (AIReturnText result (providerType (provider args)))))))"

text \<open>Lines 137 to 176, after the rules have passed.\<close>

definition resolve_and_dispatch :: "env \<Rightarrow> ai_args \<Rightarrow> AppliedRules \<Rightarrow> AIResult step" where
  "resolve_and_dispatch env args rule =
     (let apiKey = token (provider args);
          cfg = config rule;
          msgs = messages rule;
          model = get_prop cfg ''model'';
          tools = get_prop cfg ''tools''
      in
      and_then (invoke (Call_createProvider msgs (provider args) apiKey (url (provider args)) cfg)
                  (createProvider env msgs (provider args) apiKey (url (provider args)) cfg))
        (\<lambda>providerAdapterResult.
      case providerAdapterResult of
        Result_error e \<Rightarrow> done_with (Result_error e)
      | Result_ok providerAdapter \<Rightarrow>
      and_then (case customLanguageModel args of
                  Some custom \<Rightarrow> done_with custom
                | None \<Rightarrow> invoke (Call_providerAdapter model (adapter_options cfg))
                            (providerAdapter model (adapter_options cfg)))
        (\<lambda>languageModel.
      and_then (invoke (Call_buildTools tools) (buildTools env tools))
        (\<lambda>toolsResult.
      case toolsResult of
        Result_error e \<Rightarrow> done_with (Result_error e)
      | Result_ok tools_value \<Rightarrow>
      dispatch env args
        (commonOptions args cfg languageModel msgs tools_value)))))"

text \<open>Lines 120 to 212, the body of \<open>try\<close>.\<close>

definition ai_try :: "env \<Rightarrow> ai_args \<Rightarrow> AIResult step" where
  "ai_try env args =
     and_then (invoke (Call_applyAllRules (providerType (provider args)) (originalMessages args) (originalConfig args))
                 (applyAllRules env (providerType (provider args)) (originalMessages args) (originalConfig args)))
       (\<lambda>rule.
     if length (rules rule) > 0
     then done_with (Result_error \<lparr>code = AIRunError, message = violations_message (rules rule)\<rparr>)
     else resolve_and_dispatch env args rule)"

text \<open>Lines 119 to 216: \<open>try\<close> and \<open>catch\<close>.\<close>

definition ai :: "env \<Rightarrow> ai_args \<Rightarrow> AIResult completion \<times> call list" where
  "ai env args =
     (case ai_try env args [] of
        (Throw e, log) \<Rightarrow> (Return (Result_error (handleAICallAPIError env e)), log)
      | (Return r, log) \<Rightarrow> (Return r, log))"

subsection \<open>Reading the list of calls\<close>

fun streamText_calls :: "call list \<Rightarrow> options list" where
  "streamText_calls [] = []"
| "streamText_calls (Call_streamText opts # cs) = opts # streamText_calls cs"
| "streamText_calls (c # cs) = streamText_calls cs"

fun streamObject_calls :: "call list \<Rightarrow> options list" where
  "streamObject_calls [] = []"
| "streamObject_calls (Call_streamObject opts # cs) = opts # streamObject_calls cs"
| "streamObject_calls (c # cs) = streamObject_calls cs"

definition backend_calls :: "call list \<Rightarrow> options list" where
  "backend_calls cs = streamText_calls cs @ streamObject_calls cs"

fun providerAdapter_calls :: "call list \<Rightarrow> (jsval \<times> jsval object) list" where
  "providerAdapter_calls [] = []"
| "providerAdapter_calls (Call_providerAdapter m opts # cs) = (m, opts) # providerAdapter_calls cs"
| "providerAdapter_calls (c # cs) = providerAdapter_calls cs"

fun call_name :: "call \<Rightarrow> string" where
  "call_name (Call_applyAllRules p ms c) = ''applyAllRules''"
| "call_name (Call_createProvider ms p k u c) = ''createProvider''"
| "call_name (Call_providerAdapter m opts) = ''providerAdapter''"
| "call_name (Call_buildTools t) = ''buildTools''"
| "call_name (Call_jsonSchema s) = ''jsonSchema''"
| "call_name Call_smoothStream = ''smoothStream''"
| "call_name (Call_streamObject opts) = ''streamObject''"
| "call_name (Call_streamText opts) = ''streamText''"

text \<open>The value each backend call got under the key \<open>k\<close>, and the same for the calls
  of the adapter.\<close>

definition options_at :: "string \<Rightarrow> call list \<Rightarrow> optval option list" where
  "options_at k cs = map (\<lambda>opts. opts k) (backend_calls cs)"

definition adapter_options_at :: "string \<Rightarrow> call list \<Rightarrow> jsval option list" where
  "adapter_options_at k cs = map (\<lambda>(m, opts). opts k) (providerAdapter_calls cs)"

text \<open>The keys that lines 164 to 176 remove or set, whatever the configuration holds.\<close>

definition common_keys :: "string list" where
  "common_keys = [''schema'', ''model'', ''prompt'', ''messages'', ''tools'', ''abortSignal'',
     ''providerOptions'', ''experimental_telemetry'']"


subsection \<open>Example inputs\<close>

text \<open>Collaborators that all succeed: a rule engine without rules, an adapter and a
  backend that answer with fixed objects.\<close>

definition adapter_ok :: ProviderAdapter where
  "adapter_ok model opts = Inr (LanguageModel 1)"

definition text_result :: StreamTextResult where
  "text_result = \<lparr>fullStream = Handle 10, usage = Handle 11, providerMetadata = Handle 12,
     text' = Handle 13, reasoning = Handle 14, toolCalls = Handle 15\<rparr>"

definition object_result :: StreamObjectResult where
  "object_result = \<lparr>fullStream = Handle 20, usage = Handle 21, providerMetadata = Handle 22,
     object = Handle 23\<rparr>"

definition env_ok :: env where
  "env_ok =
     \<lparr>applyAllRules = (\<lambda>p ms c. Inr \<lparr>rules = [], messages = ms, config = c\<rparr>),
      createProvider = (\<lambda>ms p k u c. Inr (Result_ok adapter_ok)),
      buildTools = (\<lambda>t. Inr (Result_ok (ToolSet 2))),
      jsonSchema = (\<lambda>s. Inr (Schema 3)),
      smoothStream = Inr (StreamTransform 4),
      originalStreamText = (\<lambda>opts. Inr text_result),
      originalStreamObject = (\<lambda>opts. Inr object_result),
      handleAICallAPIError = (\<lambda>e. case e of Thrown s \<Rightarrow>
        \<lparr>code = (if s = ''rate limited'' then AIRunError else Unknown), message = s\<rparr>)\<rparr>"

text \<open>A rule engine that reports two violations.\<close>

definition env_violations :: env where
  "env_violations = env_ok
     \<lparr>applyAllRules := (\<lambda>p ms c. Inr \<lparr>rules = [\<lparr>ruleMessage = ''no system message''\<rparr>,
                                                 \<lparr>ruleMessage = ''too many images''\<rparr>],
                                        messages = ms, config = c\<rparr>)\<rparr>"

text \<open>A provider that cannot be resolved.\<close>

definition env_no_provider :: env where
  "env_no_provider = env_ok
     \<lparr>createProvider := (\<lambda>ms p k u c.
        Inr (Result_error \<lparr>code = AIProviderConfigError, message = ''Provider not configured''\<rparr>))\<rparr>"

text \<open>Collaborators that throw: while resolving the provider, while building the tools,
  and in the backend.\<close>

definition env_throwing_provider :: env where
  "env_throwing_provider = env_ok\<lparr>createProvider := (\<lambda>ms p k u c. Inl (Thrown ''unknown provider''))\<rparr>"

definition env_throwing_tools :: env where
  "env_throwing_tools = env_ok\<lparr>buildTools := (\<lambda>t. Inl (Thrown ''malformed tool''))\<rparr>"

definition env_rate_limited :: env where
  "env_rate_limited = env_ok\<lparr>originalStreamText := (\<lambda>opts. Inl (Thrown ''rate limited''))\<rparr>"

definition key_openai :: ProviderApiKey where
  "key_openai = \<lparr>providerType = ''openai'', token = ''sk-test'', url = None\<rparr>"

text \<open>The request of the concrete scenario of the specification.\<close>

definition args_text :: ai_args where
  "args_text =
     \<lparr>provider = key_openai,
      prompt = None,
      originalMessages = [JObj [(''role'', JStr ''user''), (''content'', JStr ''hi'')]],
      originalConfig = [''model'' \<mapsto> JStr ''gpt-test''],
      schema = None,
      output' = None,
      customLanguageModel = None,
      aiSdkProvider = None,
      abortSignal = None\<rparr>"

text \<open>The same request with a schema and an output shape.\<close>

definition args_object :: ai_args where
  "args_object = args_text\<lparr>schema := Some [(''type'', JStr ''object'')], output' := Some Output_object\<rparr>"

text \<open>A request whose configuration also carries a temperature and a schema.\<close>

definition args_config :: ai_args where
  "args_config = args_text
     \<lparr>originalConfig := [''model'' \<mapsto> JStr ''gpt-test'', ''temperature'' \<mapsto> JNum 1,
                         ''schema'' \<mapsto> JObj [(''type'', JStr ''object'')]]\<rparr>"

text \<open>A request with a language model built by the caller.\<close>

definition args_custom :: ai_args where
  "args_custom = args_text\<lparr>customLanguageModel := Some (LanguageModel 7)\<rparr>"

text \<open>The request with a configuration, in schema-constrained mode.\<close>

definition args_config_object :: ai_args where
  "args_config_object = args_config\<lparr>schema := Some [(''type'', JStr ''object'')], output' := Some Output_object\<rparr>"

text \<open>A request with a cancellation signal.\<close>

definition args_signal :: ai_args where
  "args_signal = args_text\<lparr>abortSignal := Some (AbortSignal 5)\<rparr>"

text \<open>A request whose configuration tries to switch the telemetry off.\<close>

definition args_telemetry_off :: ai_args where
  "args_telemetry_off = args_text
     \<lparr>originalConfig := [''model'' \<mapsto> JStr ''gpt-test'',
                         ''experimental_telemetry'' \<mapsto> JObj [(''isEnabled'', JBool False)]]\<rparr>"

text \<open>Requests whose configuration has the property \<open>cacheControl\<close> with the value
  \<open>undefined\<close>, and with the value \<open>null\<close>.\<close>

definition args_cache_undefined :: ai_args where
  "args_cache_undefined = args_text
     \<lparr>originalConfig := [''model'' \<mapsto> JStr ''gpt-test'', ''cacheControl'' \<mapsto> JUndefined]\<rparr>"

definition args_cache_null :: ai_args where
  "args_cache_null = args_text
     \<lparr>originalConfig := [''model'' \<mapsto> JStr ''gpt-test'', ''cacheControl'' \<mapsto> JNull]\<rparr>"

section \<open>Properties\<close>

subsection \<open>Steps and the list of calls\<close>

lemmas step_defs = and_then_def invoke_def invoke_property_def done_with_def throw_def

lemmas step_splits = sum.splits TypedResult.splits option.splits property.splits prod.splits
  if_splits completion.splits

lemma streamText_calls_append:
  "streamText_calls (xs @ ys) = streamText_calls xs @ streamText_calls ys"
  by (induction xs rule: streamText_calls.induct) simp_all

lemma streamObject_calls_append:
  "streamObject_calls (xs @ ys) = streamObject_calls xs @ streamObject_calls ys"
  by (induction xs rule: streamObject_calls.induct) simp_all

lemma providerAdapter_calls_append:
  "providerAdapter_calls (xs @ ys) = providerAdapter_calls xs @ providerAdapter_calls ys"
  by (induction xs rule: providerAdapter_calls.induct) simp_all

lemmas calls_append = streamText_calls_append streamObject_calls_append providerAdapter_calls_append

lemmas example_defs = env_ok_def env_violations_def env_no_provider_def adapter_ok_def
  env_throwing_provider_def env_throwing_tools_def env_rate_limited_def
  key_openai_def args_text_def args_object_def args_config_def args_custom_def
  args_config_object_def args_signal_def args_telemetry_off_def
  args_cache_undefined_def args_cache_null_def

lemmas ai_defs = ai_def ai_try_def resolve_and_dispatch_def dispatch_def sdk_def
  DEFAULT_AI_SDK_PROVIDER_def spread_property_def commonOptions_def schemaLessConfig_def
  adapter_options_def omit_def get_prop_def nullish_coalesce_def Let_def

lemmas log_defs = backend_calls_def options_at_def adapter_options_at_def

subsection \<open>The message of the rule violations\<close>







subsection \<open>The calls of each stage\<close>

lemma dispatch_streamText:
  assumes "opts \<in> set (streamText_calls (snd (dispatch env args common log)))"
  shows "opts \<in> set (streamText_calls log) \<or>
    (\<exists>t. smoothStream env = Inr t \<and> (schema args = None \<or> output' args = None) \<and>
       opts = common(''experimental_transform'' \<mapsto> TransformVal t))"
  using assms by (auto simp: dispatch_def step_defs calls_append split: step_splits)

lemma dispatch_streamObject:
  assumes "opts \<in> set (streamObject_calls (snd (dispatch env args common log)))"
  shows "opts \<in> set (streamObject_calls log) \<or>
    (\<exists>s out js. schema args = Some s \<and> output' args = Some out \<and> jsonSchema env s = Inr js \<and>
       opts = common(''schema'' \<mapsto> SchemaVal js, ''output'' \<mapsto> OutputVal out))"
  using assms by (auto simp: dispatch_def step_defs calls_append split: step_splits)

lemma dispatch_providerAdapter:
  "providerAdapter_calls (snd (dispatch env args common log)) = providerAdapter_calls log"
  by (auto simp: dispatch_def step_defs calls_append split: step_splits)

lemma dispatch_Return:
  assumes "fst (dispatch env args common log) = Return res"
  shows "\<exists>r. res = Result_ok r \<and> providerName r = providerType (provider args) \<and>
    (if schema args \<noteq> None \<and> output' args \<noteq> None
     then type_of r = Type_object
        \<and> streamText_calls (snd (dispatch env args common log)) = streamText_calls log
        \<and> length (streamObject_calls (snd (dispatch env args common log))) = Suc (length (streamObject_calls log))
     else type_of r = Type_text
        \<and> streamObject_calls (snd (dispatch env args common log)) = streamObject_calls log
        \<and> length (streamText_calls (snd (dispatch env args common log))) = Suc (length (streamText_calls log)))"
  using assms by (auto simp: dispatch_def step_defs calls_append split: step_splits)

lemma resolve_streamText:
  assumes "opts \<in> set (streamText_calls (snd (resolve_and_dispatch env args rule log)))"
  shows "opts \<in> set (streamText_calls log) \<or>
    (\<exists>lm tools t. smoothStream env = Inr t \<and> (schema args = None \<or> output' args = None) \<and>
       buildTools env (get_prop (config rule) ''tools'') = Inr (Result_ok tools) \<and>
       (\<forall>custom. customLanguageModel args = Some custom \<longrightarrow> lm = custom) \<and>
       opts = (commonOptions args (config rule) lm (messages rule) tools)(''experimental_transform'' \<mapsto> TransformVal t))"
  using assms
  by (auto simp: resolve_and_dispatch_def step_defs calls_append Let_def
      split: step_splits dest!: dispatch_streamText)

lemma resolve_streamObject:
  assumes "opts \<in> set (streamObject_calls (snd (resolve_and_dispatch env args rule log)))"
  shows "opts \<in> set (streamObject_calls log) \<or>
    (\<exists>lm tools s out js. schema args = Some s \<and> output' args = Some out \<and> jsonSchema env s = Inr js \<and>
       buildTools env (get_prop (config rule) ''tools'') = Inr (Result_ok tools) \<and>
       (\<forall>custom. customLanguageModel args = Some custom \<longrightarrow> lm = custom) \<and>
       opts = (commonOptions args (config rule) lm (messages rule) tools)
                (''schema'' \<mapsto> SchemaVal js, ''output'' \<mapsto> OutputVal out))"
  using assms
  by (auto simp: resolve_and_dispatch_def step_defs calls_append Let_def
      split: step_splits dest!: dispatch_streamObject)

lemma resolve_providerAdapter:
  "providerAdapter_calls (snd (resolve_and_dispatch env args rule log)) =
     providerAdapter_calls log @
     (if customLanguageModel args = None \<and>
         (\<exists>adapter. createProvider env (messages rule) (provider args) (token (provider args))
             (url (provider args)) (config rule) = Inr (Result_ok adapter))
      then [(get_prop (config rule) ''model'', adapter_options (config rule))] else [])"
  by (auto simp: resolve_and_dispatch_def step_defs calls_append Let_def dispatch_providerAdapter
      split: step_splits)

lemma dispatch_take:
  "n \<le> length log \<Longrightarrow> take n (snd (dispatch env args common log)) = take n log"
  by (auto simp: dispatch_def step_defs split: step_splits)

lemma resolve_createProvider:
  "take (Suc (length log)) (snd (resolve_and_dispatch env args rule log)) =
     log @ [Call_createProvider (messages rule) (provider args) (token (provider args))
             (url (provider args)) (config rule)]"
  by (auto simp: resolve_and_dispatch_def step_defs Let_def dispatch_take split: step_splits)

lemma resolve_createProvider_error:
  assumes "createProvider env (messages rule) (provider args) (token (provider args))
             (url (provider args)) (config rule) = Inr (Result_error e)"
  shows "fst (resolve_and_dispatch env args rule log) = Return (Result_error e)"
  using assms by (simp add: resolve_and_dispatch_def step_defs Let_def)

lemma dispatch_smoothStream:
  "Call_smoothStream \<in> set (snd (dispatch env args common log)) \<longleftrightarrow>
     Call_smoothStream \<in> set log \<or> schema args = None \<or> output' args = None"
  by (auto simp: dispatch_def step_defs split: step_splits)

lemma resolve_smoothStream:
  assumes "Call_smoothStream \<in> set (snd (resolve_and_dispatch env args rule log))"
  shows "Call_smoothStream \<in> set log \<or> schema args = None \<or> output' args = None"
  using assms
  by (auto simp: resolve_and_dispatch_def step_defs Let_def dispatch_smoothStream split: step_splits)

lemma resolve_Return_ok:
  assumes "fst (resolve_and_dispatch env args rule log) = Return (Result_ok r)"
  shows "providerName r = providerType (provider args) \<and>
    (if schema args \<noteq> None \<and> output' args \<noteq> None
     then type_of r = Type_object
        \<and> streamText_calls (snd (resolve_and_dispatch env args rule log)) = streamText_calls log
        \<and> length (streamObject_calls (snd (resolve_and_dispatch env args rule log))) = Suc (length (streamObject_calls log))
     else type_of r = Type_text
        \<and> streamObject_calls (snd (resolve_and_dispatch env args rule log)) = streamObject_calls log
        \<and> length (streamText_calls (snd (resolve_and_dispatch env args rule log))) = Suc (length (streamText_calls log)))"
  using assms
  by (auto simp: resolve_and_dispatch_def step_defs Let_def calls_append split: step_splits dest!: dispatch_Return)

lemma ai_log: "snd (ai env args) = snd (ai_try env args [])"
  by (simp add: ai_def split: prod.splits completion.splits)

lemma ai_try_cases:
  "ai_try env args [] =
     (case applyAllRules env (providerType (provider args)) (originalMessages args) (originalConfig args) of
        Inl e \<Rightarrow> (Throw e, [Call_applyAllRules (providerType (provider args)) (originalMessages args) (originalConfig args)])
      | Inr rule \<Rightarrow>
          if rules rule \<noteq> []
          then (Return (Result_error \<lparr>code = AIRunError, message = violations_message (rules rule)\<rparr>),
                [Call_applyAllRules (providerType (provider args)) (originalMessages args) (originalConfig args)])
          else resolve_and_dispatch env args rule
                [Call_applyAllRules (providerType (provider args)) (originalMessages args) (originalConfig args)])"
  by (simp add: ai_try_def step_defs split: sum.splits)

lemma ai_streamText:
  assumes "opts \<in> set (streamText_calls (snd (ai env args)))"
  shows "\<exists>rule lm tools t.
       applyAllRules env (providerType (provider args)) (originalMessages args) (originalConfig args) = Inr rule \<and>
       smoothStream env = Inr t \<and> (schema args = None \<or> output' args = None) \<and>
       (\<forall>custom. customLanguageModel args = Some custom \<longrightarrow> lm = custom) \<and>
       opts = (commonOptions args (config rule) lm (messages rule) tools)(''experimental_transform'' \<mapsto> TransformVal t)"
  using assms
  by (auto simp: ai_log ai_try_cases split: sum.splits if_splits dest!: resolve_streamText)

lemma ai_streamObject:
  assumes "opts \<in> set (streamObject_calls (snd (ai env args)))"
  shows "\<exists>rule lm tools s out js.
       applyAllRules env (providerType (provider args)) (originalMessages args) (originalConfig args) = Inr rule \<and>
       schema args = Some s \<and> output' args = Some out \<and> jsonSchema env s = Inr js \<and>
       (\<forall>custom. customLanguageModel args = Some custom \<longrightarrow> lm = custom) \<and>
       opts = (commonOptions args (config rule) lm (messages rule) tools)
                (''schema'' \<mapsto> SchemaVal js, ''output'' \<mapsto> OutputVal out)"
  using assms
  by (auto simp: ai_log ai_try_cases split: sum.splits if_splits dest!: resolve_streamObject) blast

text \<open>The same two facts with everything the options are made of: the language model
  is the caller's or the one the adapter returned, the tools are those \<open>buildTools\<close>
  returned.\<close>

lemma resolve_streamText_full:
  assumes "opts \<in> set (streamText_calls (snd (resolve_and_dispatch env args rule log)))"
  shows "opts \<in> set (streamText_calls log) \<or>
    (\<exists>lm tools t. smoothStream env = Inr t \<and>
       buildTools env (get_prop (config rule) ''tools'') = Inr (Result_ok tools) \<and>
       (case customLanguageModel args of
          Some custom \<Rightarrow> lm = custom
        | None \<Rightarrow> (\<exists>adapter.
            createProvider env (messages rule) (provider args) (token (provider args))
              (url (provider args)) (config rule) = Inr (Result_ok adapter)
            \<and> adapter (get_prop (config rule) ''model'') (adapter_options (config rule)) = Inr lm)) \<and>
       opts = (commonOptions args (config rule) lm (messages rule) tools)(''experimental_transform'' \<mapsto> TransformVal t))"
  using assms
  by (auto simp: resolve_and_dispatch_def step_defs calls_append Let_def
      split: step_splits dest!: dispatch_streamText)

lemma resolve_streamObject_full:
  assumes "opts \<in> set (streamObject_calls (snd (resolve_and_dispatch env args rule log)))"
  shows "opts \<in> set (streamObject_calls log) \<or>
    (\<exists>lm tools s out js. schema args = Some s \<and> output' args = Some out \<and> jsonSchema env s = Inr js \<and>
       buildTools env (get_prop (config rule) ''tools'') = Inr (Result_ok tools) \<and>
       (case customLanguageModel args of
          Some custom \<Rightarrow> lm = custom
        | None \<Rightarrow> (\<exists>adapter.
            createProvider env (messages rule) (provider args) (token (provider args))
              (url (provider args)) (config rule) = Inr (Result_ok adapter)
            \<and> adapter (get_prop (config rule) ''model'') (adapter_options (config rule)) = Inr lm)) \<and>
       opts = (commonOptions args (config rule) lm (messages rule) tools)
                (''schema'' \<mapsto> SchemaVal js, ''output'' \<mapsto> OutputVal out))"
  using assms
  by (auto simp: resolve_and_dispatch_def step_defs calls_append Let_def
      split: step_splits dest!: dispatch_streamObject)

lemma ai_streamText_full:
  assumes "opts \<in> set (streamText_calls (snd (ai env args)))"
    and "applyAllRules env (providerType (provider args)) (originalMessages args) (originalConfig args) = Inr rule"
  shows "\<exists>lm tools t. smoothStream env = Inr t \<and>
       buildTools env (get_prop (config rule) ''tools'') = Inr (Result_ok tools) \<and>
       (case customLanguageModel args of
          Some custom \<Rightarrow> lm = custom
        | None \<Rightarrow> (\<exists>adapter.
            createProvider env (messages rule) (provider args) (token (provider args))
              (url (provider args)) (config rule) = Inr (Result_ok adapter)
            \<and> adapter (get_prop (config rule) ''model'') (adapter_options (config rule)) = Inr lm)) \<and>
       opts = (commonOptions args (config rule) lm (messages rule) tools)(''experimental_transform'' \<mapsto> TransformVal t)"
  using assms
  by (auto simp: ai_log ai_try_cases split: if_splits dest!: resolve_streamText_full)

lemma ai_streamObject_full:
  assumes "opts \<in> set (streamObject_calls (snd (ai env args)))"
    and "applyAllRules env (providerType (provider args)) (originalMessages args) (originalConfig args) = Inr rule"
  shows "\<exists>lm tools s out js. schema args = Some s \<and> output' args = Some out \<and> jsonSchema env s = Inr js \<and>
       buildTools env (get_prop (config rule) ''tools'') = Inr (Result_ok tools) \<and>
       (case customLanguageModel args of
          Some custom \<Rightarrow> lm = custom
        | None \<Rightarrow> (\<exists>adapter.
            createProvider env (messages rule) (provider args) (token (provider args))
              (url (provider args)) (config rule) = Inr (Result_ok adapter)
            \<and> adapter (get_prop (config rule) ''model'') (adapter_options (config rule)) = Inr lm)) \<and>
       opts = (commonOptions args (config rule) lm (messages rule) tools)
                (''schema'' \<mapsto> SchemaVal js, ''output'' \<mapsto> OutputVal out)"
  using assms
  by (auto simp: ai_log ai_try_cases split: if_splits dest!: resolve_streamObject_full)

lemma ai_providerAdapter:
  assumes "applyAllRules env (providerType (provider args)) (originalMessages args) (originalConfig args) = Inr rule"
  shows "providerAdapter_calls (snd (ai env args)) =
     (if rules rule = [] \<and> customLanguageModel args = None \<and>
         (\<exists>adapter. createProvider env (messages rule) (provider args) (token (provider args))
             (url (provider args)) (config rule) = Inr (Result_ok adapter))
      then [(get_prop (config rule) ''model'', adapter_options (config rule))] else [])"
  using assms by (simp add: ai_log ai_try_cases resolve_providerAdapter)

lemma ai_providerAdapter_throw:
  assumes "applyAllRules env (providerType (provider args)) (originalMessages args) (originalConfig args) = Inl e"
  shows "providerAdapter_calls (snd (ai env args)) = []"
  using assms by (simp add: ai_log ai_try_cases)

subsection \<open>Exceptions\<close>



subsection \<open>The generation mode\<close>

lemma ai_Return_ok:
  assumes "fst (ai env args) = Return (Result_ok r)"
  shows "providerName r = providerType (provider args) \<and>
    (if schema args \<noteq> None \<and> output' args \<noteq> None
     then type_of r = Type_object
        \<and> streamText_calls (snd (ai env args)) = []
        \<and> length (streamObject_calls (snd (ai env args))) = 1
     else type_of r = Type_text
        \<and> streamObject_calls (snd (ai env args)) = []
        \<and> length (streamText_calls (snd (ai env args))) = 1)"
proof -
  from assms have ok: "fst (ai_try env args []) = Return (Result_ok r)"
    by (auto simp: ai_def split: prod.splits completion.splits)
  then obtain rule where
    rule: "applyAllRules env (providerType (provider args)) (originalMessages args) (originalConfig args) = Inr rule"
      "rules rule = []"
    by (auto simp: ai_try_cases split: sum.splits if_splits)
  let ?log = "[Call_applyAllRules (providerType (provider args)) (originalMessages args) (originalConfig args)]"
  have eq: "ai_try env args [] = resolve_and_dispatch env args rule ?log"
    using rule by (simp add: ai_try_cases)
  show ?thesis
    using resolve_Return_ok [of env args rule ?log r] ok
    by (simp add: ai_log eq)
qed

text \<open>
  C3. The mode is a binary choice. When \<open>ai\<close> returns a success and both the schema
  and the output shape are present, the result has type \<open>object\<close>, its \<open>providerName\<close>
  is the provider type of the request, and the only backend call made is one
  \<open>streamObject\<close>. When the schema or the output shape (or both) is absent, the result
  has type \<open>text\<close> and the only backend call made is one \<open>streamText\<close>.
\<close>

theorem ai_generation_mode:
  assumes "fst (ai env args) = Return (Result_ok r)"
  shows "(schema args \<noteq> None \<and> output' args \<noteq> None \<longrightarrow>
           type_of r = Type_object \<and> providerName r = providerType (provider args)
           \<and> streamText_calls (snd (ai env args)) = []
           \<and> length (streamObject_calls (snd (ai env args))) = 1)
       \<and> (schema args = None \<or> output' args = None \<longrightarrow>
           type_of r = Type_text \<and> providerName r = providerType (provider args)
           \<and> streamObject_calls (snd (ai env args)) = []
           \<and> length (streamText_calls (snd (ai env args))) = 1)"
  using ai_Return_ok [OF assms] by auto

theorem ai_generation_mode_witness:
  "fst (ai env_ok args_object) = Return (Result_ok (AIReturnObject object_result ''openai''))
   \<and> type_of (AIReturnObject object_result ''openai'') = Type_object
   \<and> providerName (AIReturnObject object_result ''openai'') = providerType (provider args_object)
   \<and> streamText_calls (snd (ai env_ok args_object)) = []
   \<and> length (streamObject_calls (snd (ai env_ok args_object))) = 1
   \<and> map call_name (snd (ai env_ok args_object)) =
       [''applyAllRules'', ''createProvider'', ''providerAdapter'', ''buildTools'', ''jsonSchema'', ''streamObject'']
   \<and> fst (ai env_ok args_text) = Return (Result_ok (AIReturnText text_result ''openai''))
   \<and> type_of (AIReturnText text_result ''openai'') = Type_text
   \<and> streamObject_calls (snd (ai env_ok args_text)) = []
   \<and> length (streamText_calls (snd (ai env_ok args_text))) = 1
   \<and> map call_name (snd (ai env_ok args_text)) =
       [''applyAllRules'', ''createProvider'', ''providerAdapter'', ''buildTools'', ''smoothStream'', ''streamText'']
   \<and> fst (ai env_ok (args_object\<lparr>output' := None\<rparr>)) = Return (Result_ok (AIReturnText text_result ''openai''))
   \<and> fst (ai env_ok (args_text\<lparr>output' := Some Output_array\<rparr>)) = Return (Result_ok (AIReturnText text_result ''openai''))"
proof -
  have 1: "fst (ai env_ok args_object) = Return (Result_ok (AIReturnObject object_result ''openai''))"
    by (simp add: ai_defs step_defs example_defs)
  have 2: "fst (ai env_ok args_text) = Return (Result_ok (AIReturnText text_result ''openai''))"
    by (simp add: ai_defs step_defs example_defs)
  have 3: "fst (ai env_ok (args_object\<lparr>output' := None\<rparr>)) = Return (Result_ok (AIReturnText text_result ''openai''))"
    by (simp add: ai_defs step_defs example_defs)
  have 4: "fst (ai env_ok (args_text\<lparr>output' := Some Output_array\<rparr>)) = Return (Result_ok (AIReturnText text_result ''openai''))"
    by (simp add: ai_defs step_defs example_defs)
  have 5: "map call_name (snd (ai env_ok args_object)) =
       [''applyAllRules'', ''createProvider'', ''providerAdapter'', ''buildTools'', ''jsonSchema'', ''streamObject'']"
    by (simp add: ai_defs step_defs example_defs)
  have 6: "map call_name (snd (ai env_ok args_text)) =
       [''applyAllRules'', ''createProvider'', ''providerAdapter'', ''buildTools'', ''smoothStream'', ''streamText'']"
    by (simp add: ai_defs step_defs example_defs)
  show ?thesis
    using ai_generation_mode [OF 1] ai_generation_mode [OF 2] 3 4 5 6 1 2
    by (simp add: args_object_def args_text_def key_openai_def)
qed



lemma backend_callsD:
  "opts \<in> set (backend_calls cs) \<Longrightarrow> opts \<in> set (streamText_calls cs) \<or> opts \<in> set (streamObject_calls cs)"
  by (auto simp: backend_calls_def)

lemma ai_fst:
  "fst (ai env args) =
     (case fst (ai_try env args []) of
        Throw e \<Rightarrow> Return (Result_error (handleAICallAPIError env e))
      | Return r \<Rightarrow> Return r)"
  by (simp add: ai_def split: prod.splits completion.splits)

subsection \<open>A language model built by the caller\<close>

text \<open>
  C4 fails as stated. With a custom language model, \<open>createProvider\<close> is still
  called, and when it fails the failure is the result: the request that succeeds with a
  working provider ends in the provider's error with a provider that cannot be resolved.
\<close>

theorem custom_model_counterexample:
  "customLanguageModel args_custom = Some (LanguageModel 7)
   \<and> map call_name (snd (ai env_ok args_custom)) =
       [''applyAllRules'', ''createProvider'', ''buildTools'', ''smoothStream'', ''streamText'']
   \<and> fst (ai env_ok args_custom) = Return (Result_ok (AIReturnText text_result ''openai''))
   \<and> map call_name (snd (ai env_no_provider args_custom)) = [''applyAllRules'', ''createProvider'']
   \<and> fst (ai env_no_provider args_custom) =
       Return (Result_error \<lparr>code = AIProviderConfigError, message = ''Provider not configured''\<rparr>)"
  by (simp add: ai_defs step_defs example_defs)

text \<open>
  C4 (amended). When the caller supplies a language model, the adapter that
  \<open>createProvider\<close> returns is never called and every backend call gets the caller's
  model, unchanged, as \<open>model\<close>. \<open>createProvider\<close> itself is still called, right
  after the rule engine has passed the request, and an error result it returns is the
  result of \<open>ai\<close>.
\<close>

theorem ai_custom_model:
  assumes "customLanguageModel args = Some custom"
  shows "providerAdapter_calls (snd (ai env args)) = []
    \<and> (\<forall>opts \<in> set (backend_calls (snd (ai env args))). opts ''model'' = Some (ModelVal custom))
    \<and> (\<forall>rule. applyAllRules env (providerType (provider args)) (originalMessages args) (originalConfig args) = Inr rule
           \<and> rules rule = [] \<longrightarrow>
         take 2 (snd (ai env args)) =
           [Call_applyAllRules (providerType (provider args)) (originalMessages args) (originalConfig args),
            Call_createProvider (messages rule) (provider args) (token (provider args)) (url (provider args)) (config rule)]
         \<and> (\<forall>e. createProvider env (messages rule) (provider args) (token (provider args))
                  (url (provider args)) (config rule) = Inr (Result_error e)
               \<longrightarrow> fst (ai env args) = Return (Result_error e)))"
proof (intro conjI ballI allI impI)
  show "providerAdapter_calls (snd (ai env args)) = []"
  proof (cases "applyAllRules env (providerType (provider args)) (originalMessages args) (originalConfig args)")
    case (Inl e)
    then show ?thesis by (rule ai_providerAdapter_throw)
  next
    case (Inr rule)
    then show ?thesis using assms by (simp add: ai_providerAdapter)
  qed
next
  fix opts assume "opts \<in> set (backend_calls (snd (ai env args)))"
  then show "opts ''model'' = Some (ModelVal custom)"
    using assms
    by (auto simp: commonOptions_def dest!: backend_callsD ai_streamText ai_streamObject)
next
  fix rule
  assume r: "applyAllRules env (providerType (provider args)) (originalMessages args) (originalConfig args) = Inr rule
           \<and> rules rule = []"
  let ?log = "[Call_applyAllRules (providerType (provider args)) (originalMessages args) (originalConfig args)]"
  have eq: "ai_try env args [] = resolve_and_dispatch env args rule ?log"
    using r by (simp add: ai_try_cases)
  show "take 2 (snd (ai env args)) =
           [Call_applyAllRules (providerType (provider args)) (originalMessages args) (originalConfig args),
            Call_createProvider (messages rule) (provider args) (token (provider args)) (url (provider args)) (config rule)]"
    using resolve_createProvider [of ?log env args rule]
    by (simp add: ai_log eq numeral_2_eq_2)
  fix e
  assume "createProvider env (messages rule) (provider args) (token (provider args))
                  (url (provider args)) (config rule) = Inr (Result_error e)"
  then show "fst (ai env args) = Return (Result_error e)"
    using resolve_createProvider_error [of env rule args e ?log]
    by (simp add: ai_fst eq)
qed

theorem ai_custom_model_witness:
  "customLanguageModel args_custom = Some (LanguageModel 7)
   \<and> providerAdapter_calls (snd (ai env_ok args_custom)) = []
   \<and> options_at ''model'' (snd (ai env_ok args_custom)) = [Some (ModelVal (LanguageModel 7))]
   \<and> take 2 (map call_name (snd (ai env_no_provider args_custom))) = [''applyAllRules'', ''createProvider'']
   \<and> fst (ai env_no_provider args_custom) =
       Return (Result_error \<lparr>code = AIProviderConfigError, message = ''Provider not configured''\<rparr>)"
proof -
  have c: "customLanguageModel args_custom = Some (LanguageModel 7)"
    by (simp add: example_defs)
  have 1: "options_at ''model'' (snd (ai env_ok args_custom)) = [Some (ModelVal (LanguageModel 7))]"
    by (simp add: ai_defs step_defs example_defs log_defs)
  show ?thesis
    using ai_custom_model [OF c, of env_ok] ai_custom_model [OF c, of env_no_provider] 1 c
    by (simp add: example_defs take_map)
qed

subsection \<open>What reaches the backend\<close>

text \<open>
  C5 fails as stated. The options of the backend call are not the configuration
  unchanged: with a rule engine that changes nothing, the \<open>schema\<close> of the
  configuration is gone, \<open>model\<close> holds the language model instead of its name, and
  \<open>prompt\<close> has been added.
\<close>

theorem ai_options_counterexample:
  "applyAllRules env_ok (providerType (provider args_config)) (originalMessages args_config) (originalConfig args_config)
     = Inr \<lparr>rules = [], messages = originalMessages args_config, config = originalConfig args_config\<rparr>
   \<and> originalConfig args_config ''schema'' = Some (JObj [(''type'', JStr ''object'')])
   \<and> options_at ''schema'' (snd (ai env_ok args_config)) = [None]
   \<and> originalConfig args_config ''model'' = Some (JStr ''gpt-test'')
   \<and> options_at ''model'' (snd (ai env_ok args_config)) = [Some (ModelVal (LanguageModel 1))]
   \<and> originalConfig args_config ''prompt'' = None
   \<and> options_at ''prompt'' (snd (ai env_ok args_config)) = [Some (PromptVal None)]"
  by (simp add: ai_defs step_defs example_defs log_defs)

lemma commonOptions_other:
  "k \<notin> set common_keys \<Longrightarrow> commonOptions args cfg lm msgs tools k = map_option Plain (cfg k)"
  by (simp add: commonOptions_def schemaLessConfig_def omit_def common_keys_def)

text \<open>
  C5 (amended). Every backend call gets the messages of the rule engine, unchanged, as
  \<open>messages\<close>. Of the rule engine's configuration, \<open>schema\<close> is removed: the
  \<open>streamText\<close> options have no such key, and in the \<open>streamObject\<close> options it
  holds what \<open>jsonSchema\<close> made of the schema argument, next to \<open>output\<close>, the output
  shape. \<open>model\<close> holds the language model (the caller's, or the one the adapter
  returned for the configuration's \<open>model\<close>), \<open>tools\<close> holds the tools that
  \<open>buildTools\<close> returned for the configuration's \<open>tools\<close>, and
  \<open>providerOptions\<close> holds the configuration's own \<open>providerOptions\<close>. \<open>ai\<close>
  adds \<open>prompt\<close> and \<open>abortSignal\<close> (those of the request),
  \<open>experimental_telemetry\<close> (\<open>{isEnabled: true}\<close>) and, for \<open>streamText\<close>,
  \<open>experimental_transform\<close> (what \<open>smoothStream\<close> returned). Every field of the
  configuration under any other key reaches the options with its value unchanged, and
  no other key is added.
\<close>

theorem ai_options_from_rules:
  assumes "applyAllRules env (providerType (provider args)) (originalMessages args) (originalConfig args) = Inr rule"
  shows "(\<forall>opts \<in> set (streamText_calls (snd (ai env args))). \<exists>lm tools t.
            (case customLanguageModel args of
               Some custom \<Rightarrow> lm = custom
             | None \<Rightarrow> (\<exists>adapter.
                 createProvider env (messages rule) (provider args) (token (provider args))
                   (url (provider args)) (config rule) = Inr (Result_ok adapter)
                 \<and> adapter (get_prop (config rule) ''model'') (adapter_options (config rule)) = Inr lm))
          \<and> buildTools env (get_prop (config rule) ''tools'') = Inr (Result_ok tools)
          \<and> smoothStream env = Inr t
          \<and> opts ''schema'' = None
          \<and> opts ''model'' = Some (ModelVal lm)
          \<and> opts ''prompt'' = Some (PromptVal (prompt args))
          \<and> opts ''messages'' = Some (MessagesVal (messages rule))
          \<and> opts ''tools'' = Some (ToolsVal tools)
          \<and> opts ''abortSignal'' = Some (AbortSignalVal (abortSignal args))
          \<and> opts ''providerOptions'' = Some (Plain (get_prop (config rule) ''providerOptions''))
          \<and> opts ''experimental_telemetry'' = Some (TelemetryVal \<lparr>isEnabled = True\<rparr>)
          \<and> opts ''experimental_transform'' = Some (TransformVal t)
          \<and> (\<forall>k. k \<notin> set (''experimental_transform'' # common_keys) \<longrightarrow> opts k = map_option Plain (config rule k)))
    \<and> (\<forall>opts \<in> set (streamObject_calls (snd (ai env args))). \<exists>lm tools s out js.
            (case customLanguageModel args of
               Some custom \<Rightarrow> lm = custom
             | None \<Rightarrow> (\<exists>adapter.
                 createProvider env (messages rule) (provider args) (token (provider args))
                   (url (provider args)) (config rule) = Inr (Result_ok adapter)
                 \<and> adapter (get_prop (config rule) ''model'') (adapter_options (config rule)) = Inr lm))
          \<and> buildTools env (get_prop (config rule) ''tools'') = Inr (Result_ok tools)
          \<and> schema args = Some s \<and> jsonSchema env s = Inr js \<and> output' args = Some out
          \<and> opts ''schema'' = Some (SchemaVal js)
          \<and> opts ''output'' = Some (OutputVal out)
          \<and> opts ''model'' = Some (ModelVal lm)
          \<and> opts ''prompt'' = Some (PromptVal (prompt args))
          \<and> opts ''messages'' = Some (MessagesVal (messages rule))
          \<and> opts ''tools'' = Some (ToolsVal tools)
          \<and> opts ''abortSignal'' = Some (AbortSignalVal (abortSignal args))
          \<and> opts ''providerOptions'' = Some (Plain (get_prop (config rule) ''providerOptions''))
          \<and> opts ''experimental_telemetry'' = Some (TelemetryVal \<lparr>isEnabled = True\<rparr>)
          \<and> (\<forall>k. k \<notin> set (''output'' # common_keys) \<longrightarrow> opts k = map_option Plain (config rule k)))"
proof (intro conjI ballI)
  fix opts assume "opts \<in> set (streamText_calls (snd (ai env args)))"
  from ai_streamText_full [OF this assms] obtain lm tools t where
    t: "smoothStream env = Inr t"
    and tools: "buildTools env (get_prop (config rule) ''tools'') = Inr (Result_ok tools)"
    and lm: "(case customLanguageModel args of
          Some custom \<Rightarrow> lm = custom
        | None \<Rightarrow> (\<exists>adapter.
            createProvider env (messages rule) (provider args) (token (provider args))
              (url (provider args)) (config rule) = Inr (Result_ok adapter)
            \<and> adapter (get_prop (config rule) ''model'') (adapter_options (config rule)) = Inr lm))"
    and opts: "opts = (commonOptions args (config rule) lm (messages rule) tools)(''experimental_transform'' \<mapsto> TransformVal t)"
    by blast
  have frame: "\<forall>k. k \<notin> set (''experimental_transform'' # common_keys) \<longrightarrow> opts k = map_option Plain (config rule k)"
    by (simp add: opts commonOptions_other)
  have keys: "opts ''schema'' = None" "opts ''model'' = Some (ModelVal lm)"
    "opts ''prompt'' = Some (PromptVal (prompt args))"
    "opts ''messages'' = Some (MessagesVal (messages rule))"
    "opts ''tools'' = Some (ToolsVal tools)"
    "opts ''abortSignal'' = Some (AbortSignalVal (abortSignal args))"
    "opts ''providerOptions'' = Some (Plain (get_prop (config rule) ''providerOptions''))"
    "opts ''experimental_telemetry'' = Some (TelemetryVal \<lparr>isEnabled = True\<rparr>)"
    "opts ''experimental_transform'' = Some (TransformVal t)"
    by (simp_all add: opts commonOptions_def schemaLessConfig_def omit_def)
  show "\<exists>lm tools t.
            (case customLanguageModel args of
               Some custom \<Rightarrow> lm = custom
             | None \<Rightarrow> (\<exists>adapter.
                 createProvider env (messages rule) (provider args) (token (provider args))
                   (url (provider args)) (config rule) = Inr (Result_ok adapter)
                 \<and> adapter (get_prop (config rule) ''model'') (adapter_options (config rule)) = Inr lm))
          \<and> buildTools env (get_prop (config rule) ''tools'') = Inr (Result_ok tools)
          \<and> smoothStream env = Inr t
          \<and> opts ''schema'' = None
          \<and> opts ''model'' = Some (ModelVal lm)
          \<and> opts ''prompt'' = Some (PromptVal (prompt args))
          \<and> opts ''messages'' = Some (MessagesVal (messages rule))
          \<and> opts ''tools'' = Some (ToolsVal tools)
          \<and> opts ''abortSignal'' = Some (AbortSignalVal (abortSignal args))
          \<and> opts ''providerOptions'' = Some (Plain (get_prop (config rule) ''providerOptions''))
          \<and> opts ''experimental_telemetry'' = Some (TelemetryVal \<lparr>isEnabled = True\<rparr>)
          \<and> opts ''experimental_transform'' = Some (TransformVal t)
          \<and> (\<forall>k. k \<notin> set (''experimental_transform'' # common_keys) \<longrightarrow> opts k = map_option Plain (config rule k))"
    using t tools lm keys frame by blast
next
  fix opts assume "opts \<in> set (streamObject_calls (snd (ai env args)))"
  from ai_streamObject_full [OF this assms] obtain lm tools s out js where
    s: "schema args = Some s" "output' args = Some out" "jsonSchema env s = Inr js"
    and tools: "buildTools env (get_prop (config rule) ''tools'') = Inr (Result_ok tools)"
    and lm: "(case customLanguageModel args of
          Some custom \<Rightarrow> lm = custom
        | None \<Rightarrow> (\<exists>adapter.
            createProvider env (messages rule) (provider args) (token (provider args))
              (url (provider args)) (config rule) = Inr (Result_ok adapter)
            \<and> adapter (get_prop (config rule) ''model'') (adapter_options (config rule)) = Inr lm))"
    and opts: "opts = (commonOptions args (config rule) lm (messages rule) tools)
                (''schema'' \<mapsto> SchemaVal js, ''output'' \<mapsto> OutputVal out)"
    by blast
  have frame: "\<forall>k. k \<notin> set (''output'' # common_keys) \<longrightarrow> opts k = map_option Plain (config rule k)"
    by (auto simp: opts commonOptions_other common_keys_def)
  have keys: "opts ''schema'' = Some (SchemaVal js)" "opts ''output'' = Some (OutputVal out)"
    "opts ''model'' = Some (ModelVal lm)"
    "opts ''prompt'' = Some (PromptVal (prompt args))"
    "opts ''messages'' = Some (MessagesVal (messages rule))"
    "opts ''tools'' = Some (ToolsVal tools)"
    "opts ''abortSignal'' = Some (AbortSignalVal (abortSignal args))"
    "opts ''providerOptions'' = Some (Plain (get_prop (config rule) ''providerOptions''))"
    "opts ''experimental_telemetry'' = Some (TelemetryVal \<lparr>isEnabled = True\<rparr>)"
    by (simp_all add: opts commonOptions_def schemaLessConfig_def omit_def)
  show "\<exists>lm tools s out js.
            (case customLanguageModel args of
               Some custom \<Rightarrow> lm = custom
             | None \<Rightarrow> (\<exists>adapter.
                 createProvider env (messages rule) (provider args) (token (provider args))
                   (url (provider args)) (config rule) = Inr (Result_ok adapter)
                 \<and> adapter (get_prop (config rule) ''model'') (adapter_options (config rule)) = Inr lm))
          \<and> buildTools env (get_prop (config rule) ''tools'') = Inr (Result_ok tools)
          \<and> schema args = Some s \<and> jsonSchema env s = Inr js \<and> output' args = Some out
          \<and> opts ''schema'' = Some (SchemaVal js)
          \<and> opts ''output'' = Some (OutputVal out)
          \<and> opts ''model'' = Some (ModelVal lm)
          \<and> opts ''prompt'' = Some (PromptVal (prompt args))
          \<and> opts ''messages'' = Some (MessagesVal (messages rule))
          \<and> opts ''tools'' = Some (ToolsVal tools)
          \<and> opts ''abortSignal'' = Some (AbortSignalVal (abortSignal args))
          \<and> opts ''providerOptions'' = Some (Plain (get_prop (config rule) ''providerOptions''))
          \<and> opts ''experimental_telemetry'' = Some (TelemetryVal \<lparr>isEnabled = True\<rparr>)
          \<and> (\<forall>k. k \<notin> set (''output'' # common_keys) \<longrightarrow> opts k = map_option Plain (config rule k))"
    using s tools lm keys frame by blast
qed

theorem ai_options_from_rules_witness:
  "applyAllRules env_ok (providerType (provider args_config)) (originalMessages args_config) (originalConfig args_config)
     = Inr \<lparr>rules = [], messages = originalMessages args_config, config = originalConfig args_config\<rparr>
   \<and> map call_name (snd (ai env_ok args_config)) =
       [''applyAllRules'', ''createProvider'', ''providerAdapter'', ''buildTools'', ''smoothStream'', ''streamText'']
   \<and> options_at ''schema'' (snd (ai env_ok args_config)) = [None]
   \<and> options_at ''model'' (snd (ai env_ok args_config)) = [Some (ModelVal (LanguageModel 1))]
   \<and> options_at ''prompt'' (snd (ai env_ok args_config)) = [Some (PromptVal None)]
   \<and> options_at ''messages'' (snd (ai env_ok args_config)) =
       [Some (MessagesVal [JObj [(''role'', JStr ''user''), (''content'', JStr ''hi'')]])]
   \<and> options_at ''tools'' (snd (ai env_ok args_config)) = [Some (ToolsVal (ToolSet 2))]
   \<and> options_at ''abortSignal'' (snd (ai env_ok args_config)) = [Some (AbortSignalVal None)]
   \<and> options_at ''providerOptions'' (snd (ai env_ok args_config)) = [Some (Plain JUndefined)]
   \<and> options_at ''experimental_telemetry'' (snd (ai env_ok args_config)) = [Some (TelemetryVal \<lparr>isEnabled = True\<rparr>)]
   \<and> options_at ''experimental_transform'' (snd (ai env_ok args_config)) = [Some (TransformVal (StreamTransform 4))]
   \<and> ''temperature'' \<notin> set (''experimental_transform'' # common_keys)
   \<and> options_at ''temperature'' (snd (ai env_ok args_config)) = [Some (Plain (JNum 1))]
   \<and> ''seed'' \<notin> set (''experimental_transform'' # common_keys)
   \<and> options_at ''seed'' (snd (ai env_ok args_config)) = [None]
   \<and> map call_name (snd (ai env_ok args_config_object)) =
       [''applyAllRules'', ''createProvider'', ''providerAdapter'', ''buildTools'', ''jsonSchema'', ''streamObject'']
   \<and> options_at ''schema'' (snd (ai env_ok args_config_object)) = [Some (SchemaVal (Schema 3))]
   \<and> options_at ''output'' (snd (ai env_ok args_config_object)) = [Some (OutputVal Output_object)]
   \<and> options_at ''model'' (snd (ai env_ok args_config_object)) = [Some (ModelVal (LanguageModel 1))]
   \<and> options_at ''tools'' (snd (ai env_ok args_config_object)) = [Some (ToolsVal (ToolSet 2))]
   \<and> ''temperature'' \<notin> set (''output'' # common_keys)
   \<and> options_at ''temperature'' (snd (ai env_ok args_config_object)) = [Some (Plain (JNum 1))]"
proof -
  have r: "applyAllRules env_ok (providerType (provider args_config)) (originalMessages args_config) (originalConfig args_config)
     = Inr \<lparr>rules = [], messages = originalMessages args_config, config = originalConfig args_config\<rparr>"
    by (simp add: example_defs)
  have r': "applyAllRules env_ok (providerType (provider args_config_object)) (originalMessages args_config_object)
       (originalConfig args_config_object)
     = Inr \<lparr>rules = [], messages = originalMessages args_config, config = originalConfig args_config\<rparr>"
    by (simp add: example_defs)
  have t: "\<exists>opts. streamText_calls (snd (ai env_ok args_config)) = [opts] \<and> streamObject_calls (snd (ai env_ok args_config)) = []"
    by (simp add: ai_defs step_defs example_defs)
  have ob: "\<exists>opts. streamObject_calls (snd (ai env_ok args_config_object)) = [opts] \<and> streamText_calls (snd (ai env_ok args_config_object)) = []"
    by (simp add: ai_defs step_defs example_defs)
  have k: "''temperature'' \<notin> set (''experimental_transform'' # common_keys)"
    "''seed'' \<notin> set (''experimental_transform'' # common_keys)"
    "''temperature'' \<notin> set (''output'' # common_keys)"
    by (simp_all add: common_keys_def)
  have c: "config \<lparr>rules = [], messages = originalMessages args_config, config = originalConfig args_config\<rparr> ''temperature''
      = Some (JNum 1)"
    "config \<lparr>rules = [], messages = originalMessages args_config, config = originalConfig args_config\<rparr> ''seed'' = None"
    by (simp_all add: args_config_def args_text_def)
  have "\<forall>opts \<in> set (streamText_calls (snd (ai env_ok args_config))).
      opts ''schema'' = None \<and> opts ''temperature'' = Some (Plain (JNum 1)) \<and> opts ''seed'' = None"
    using ai_options_from_rules [OF r] k c by fastforce
  with t have text_mode: "options_at ''schema'' (snd (ai env_ok args_config)) = [None]"
    "options_at ''temperature'' (snd (ai env_ok args_config)) = [Some (Plain (JNum 1))]"
    "options_at ''seed'' (snd (ai env_ok args_config)) = [None]"
    by (auto simp: log_defs)
  have "\<forall>opts \<in> set (streamObject_calls (snd (ai env_ok args_config_object))).
      opts ''temperature'' = Some (Plain (JNum 1))"
    using ai_options_from_rules [OF r'] k c by fastforce
  with ob have object_mode: "options_at ''temperature'' (snd (ai env_ok args_config_object)) = [Some (Plain (JNum 1))]"
    by (auto simp: log_defs)
  have rest: "map call_name (snd (ai env_ok args_config)) =
       [''applyAllRules'', ''createProvider'', ''providerAdapter'', ''buildTools'', ''smoothStream'', ''streamText'']"
    "options_at ''model'' (snd (ai env_ok args_config)) = [Some (ModelVal (LanguageModel 1))]"
    "options_at ''prompt'' (snd (ai env_ok args_config)) = [Some (PromptVal None)]"
    "options_at ''messages'' (snd (ai env_ok args_config)) =
       [Some (MessagesVal [JObj [(''role'', JStr ''user''), (''content'', JStr ''hi'')]])]"
    "options_at ''tools'' (snd (ai env_ok args_config)) = [Some (ToolsVal (ToolSet 2))]"
    "options_at ''abortSignal'' (snd (ai env_ok args_config)) = [Some (AbortSignalVal None)]"
    "options_at ''providerOptions'' (snd (ai env_ok args_config)) = [Some (Plain JUndefined)]"
    "options_at ''experimental_telemetry'' (snd (ai env_ok args_config)) = [Some (TelemetryVal \<lparr>isEnabled = True\<rparr>)]"
    "options_at ''experimental_transform'' (snd (ai env_ok args_config)) = [Some (TransformVal (StreamTransform 4))]"
    "map call_name (snd (ai env_ok args_config_object)) =
       [''applyAllRules'', ''createProvider'', ''providerAdapter'', ''buildTools'', ''jsonSchema'', ''streamObject'']"
    "options_at ''schema'' (snd (ai env_ok args_config_object)) = [Some (SchemaVal (Schema 3))]"
    "options_at ''output'' (snd (ai env_ok args_config_object)) = [Some (OutputVal Output_object)]"
    "options_at ''model'' (snd (ai env_ok args_config_object)) = [Some (ModelVal (LanguageModel 1))]"
    "options_at ''tools'' (snd (ai env_ok args_config_object)) = [Some (ToolsVal (ToolSet 2))]"
    by (simp_all add: ai_defs step_defs example_defs log_defs)
  show ?thesis
    by (intro conjI r k text_mode object_mode rest)
qed

subsection \<open>The smoothing transform\<close>

lemma ai_smoothStream:
  assumes "Call_smoothStream \<in> set (snd (ai env args))"
  shows "schema args = None \<or> output' args = None"
  using assms
  by (auto simp: ai_log ai_try_cases split: sum.splits if_splits dest!: resolve_smoothStream)

text \<open>
  C6. Every \<open>streamText\<close> call carries, as \<open>experimental_transform\<close>, the transform
  that \<open>smoothStream\<close> returned. When \<open>streamObject\<close> is called, \<open>smoothStream\<close> has
  not been called and no value of the options is a stream transform.
\<close>

theorem ai_smoothStream_transform:
  "(\<forall>opts \<in> set (streamText_calls (snd (ai env args))).
      \<exists>t. smoothStream env = Inr t \<and> opts ''experimental_transform'' = Some (TransformVal t))
   \<and> (\<forall>opts \<in> set (streamObject_calls (snd (ai env args))).
        Call_smoothStream \<notin> set (snd (ai env args)) \<and> (\<forall>k t. opts k \<noteq> Some (TransformVal t)))"
proof (intro conjI ballI allI)
  fix opts assume "opts \<in> set (streamText_calls (snd (ai env args)))"
  then show "\<exists>t. smoothStream env = Inr t \<and> opts ''experimental_transform'' = Some (TransformVal t)"
    by (auto dest!: ai_streamText)
next
  fix opts assume o: "opts \<in> set (streamObject_calls (snd (ai env args)))"
  then show "Call_smoothStream \<notin> set (snd (ai env args))"
    using ai_smoothStream [of env args] by (auto dest!: ai_streamObject)
  fix k t
  show "opts k \<noteq> Some (TransformVal t)"
    using o
    by (auto simp: commonOptions_def schemaLessConfig_def omit_def dest!: ai_streamObject split: if_splits)
qed

theorem ai_smoothStream_transform_witness:
  "streamText_calls (snd (ai env_ok args_text)) \<noteq> []
   \<and> smoothStream env_ok = Inr (StreamTransform 4)
   \<and> options_at ''experimental_transform'' (snd (ai env_ok args_text)) = [Some (TransformVal (StreamTransform 4))]
   \<and> streamObject_calls (snd (ai env_ok args_object)) \<noteq> []
   \<and> Call_smoothStream \<notin> set (snd (ai env_ok args_object))
   \<and> options_at ''experimental_transform'' (snd (ai env_ok args_object)) = [None]"
proof -
  have t: "\<exists>opts. streamText_calls (snd (ai env_ok args_text)) = [opts] \<and> streamObject_calls (snd (ai env_ok args_text)) = []"
    by (simp add: ai_defs step_defs example_defs)
  have ob: "\<exists>opts. streamObject_calls (snd (ai env_ok args_object)) = [opts] \<and> streamText_calls (snd (ai env_ok args_object)) = []"
    by (simp add: ai_defs step_defs example_defs)
  have n: "options_at ''experimental_transform'' (snd (ai env_ok args_object)) = [None]"
    by (simp add: ai_defs step_defs example_defs log_defs)
  have s: "smoothStream env_ok = Inr (StreamTransform 4)"
    by (simp add: env_ok_def)
  show ?thesis
    using ai_smoothStream_transform [of env_ok args_text] ai_smoothStream_transform [of env_ok args_object] t ob n s
    by (auto simp: log_defs)
qed

subsection \<open>The schema\<close>

text \<open>
  C7 fails as stated. In schema-constrained mode the field \<open>model\<close> of the configuration
  is not left as it was: the options hold the language model under that key.
\<close>

theorem ai_schema_counterexample:
  "applyAllRules env_ok (providerType (provider args_config_object)) (originalMessages args_config_object)
       (originalConfig args_config_object)
     = Inr \<lparr>rules = [], messages = originalMessages args_config_object, config = originalConfig args_config_object\<rparr>
   \<and> map call_name (snd (ai env_ok args_config_object)) =
       [''applyAllRules'', ''createProvider'', ''providerAdapter'', ''buildTools'', ''jsonSchema'', ''streamObject'']
   \<and> originalConfig args_config_object ''model'' = Some (JStr ''gpt-test'')
   \<and> options_at ''model'' (snd (ai env_ok args_config_object)) = [Some (ModelVal (LanguageModel 1))]"
  by (simp add: ai_defs step_defs example_defs log_defs)

text \<open>
  C7 (amended). In every \<open>streamObject\<close> call the key \<open>schema\<close> holds what
  \<open>jsonSchema\<close> made of the schema argument, not a value of the configuration, and
  \<open>output\<close> holds the output shape. Every field of the configuration other than
  \<open>schema\<close> and the keys \<open>ai\<close> sets itself (\<open>model\<close>, \<open>prompt\<close>, \<open>messages\<close>,
  \<open>tools\<close>, \<open>abortSignal\<close>, \<open>providerOptions\<close>, \<open>experimental_telemetry\<close>,
  \<open>output\<close>) is in the options with its value unchanged.
\<close>

theorem ai_schema_parameter:
  assumes "applyAllRules env (providerType (provider args)) (originalMessages args) (originalConfig args) = Inr rule"
  shows "\<forall>opts \<in> set (streamObject_calls (snd (ai env args))).
      (\<exists>s js. schema args = Some s \<and> jsonSchema env s = Inr js \<and> opts ''schema'' = Some (SchemaVal js))
    \<and> (\<exists>out. output' args = Some out \<and> opts ''output'' = Some (OutputVal out))
    \<and> (\<forall>k. k \<notin> set (''output'' # common_keys) \<longrightarrow> opts k = map_option Plain (config rule k))"
proof (intro ballI conjI allI impI)
  fix opts assume o: "opts \<in> set (streamObject_calls (snd (ai env args)))"
  then show "\<exists>s js. schema args = Some s \<and> jsonSchema env s = Inr js \<and> opts ''schema'' = Some (SchemaVal js)"
    by (auto dest!: ai_streamObject)
  from o show "\<exists>out. output' args = Some out \<and> opts ''output'' = Some (OutputVal out)"
    by (auto dest!: ai_streamObject)
  fix k assume "k \<notin> set (''output'' # common_keys)"
  with o show "opts k = map_option Plain (config rule k)"
    using assms by (auto simp: commonOptions_other common_keys_def dest!: ai_streamObject)
qed

theorem ai_schema_parameter_witness:
  "applyAllRules env_ok (providerType (provider args_config_object)) (originalMessages args_config_object)
       (originalConfig args_config_object)
     = Inr \<lparr>rules = [], messages = originalMessages args_config_object, config = originalConfig args_config_object\<rparr>
   \<and> originalConfig args_config_object ''schema'' = Some (JObj [(''type'', JStr ''object'')])
   \<and> schema args_config_object = Some [(''type'', JStr ''object'')]
   \<and> jsonSchema env_ok [(''type'', JStr ''object'')] = Inr (Schema 3)
   \<and> options_at ''schema'' (snd (ai env_ok args_config_object)) = [Some (SchemaVal (Schema 3))]
   \<and> options_at ''output'' (snd (ai env_ok args_config_object)) = [Some (OutputVal Output_object)]
   \<and> ''temperature'' \<notin> set (''output'' # common_keys)
   \<and> options_at ''temperature'' (snd (ai env_ok args_config_object)) = [Some (Plain (JNum 1))]"
proof -
  have r: "applyAllRules env_ok (providerType (provider args_config_object)) (originalMessages args_config_object)
       (originalConfig args_config_object)
     = Inr \<lparr>rules = [], messages = originalMessages args_config_object, config = originalConfig args_config_object\<rparr>"
    by (simp add: example_defs)
  have ob: "\<exists>opts. streamObject_calls (snd (ai env_ok args_config_object)) = [opts] \<and> streamText_calls (snd (ai env_ok args_config_object)) = []"
    by (simp add: ai_defs step_defs example_defs)
  have k: "''temperature'' \<notin> set (''output'' # common_keys)"
    by (simp add: common_keys_def)
  have e: "originalConfig args_config_object ''schema'' = Some (JObj [(''type'', JStr ''object'')])"
    "schema args_config_object = Some [(''type'', JStr ''object'')]"
    "output' args_config_object = Some Output_object"
    "jsonSchema env_ok [(''type'', JStr ''object'')] = Inr (Schema 3)"
    "originalConfig args_config_object ''temperature'' = Some (JNum 1)"
    by (simp_all add: example_defs)
  show ?thesis
    using ai_schema_parameter [OF r] ob k r e
    by (auto simp: log_defs)
qed

subsection \<open>Cancellation and telemetry\<close>

text \<open>
  C8. Every backend call, \<open>streamText\<close> and \<open>streamObject\<close> alike, gets under
  \<open>abortSignal\<close> exactly the signal of the request: the same signal when there is one,
  \<open>undefined\<close> when there is none.
\<close>

theorem ai_abortSignal:
  "\<forall>opts \<in> set (backend_calls (snd (ai env args))).
     opts ''abortSignal'' = Some (AbortSignalVal (abortSignal args))"
  by (auto simp: commonOptions_def dest!: backend_callsD ai_streamText ai_streamObject)

theorem ai_abortSignal_witness:
  "options_at ''abortSignal'' (snd (ai env_ok args_signal)) = [Some (AbortSignalVal (Some (AbortSignal 5)))]
   \<and> options_at ''abortSignal'' (snd (ai env_ok (args_object\<lparr>abortSignal := Some (AbortSignal 5)\<rparr>)))
       = [Some (AbortSignalVal (Some (AbortSignal 5)))]
   \<and> options_at ''abortSignal'' (snd (ai env_ok args_text)) = [Some (AbortSignalVal None)]"
proof -
  have 1: "\<exists>opts. backend_calls (snd (ai env_ok args_signal)) = [opts]"
    by (simp add: ai_defs step_defs example_defs log_defs)
  have 2: "\<exists>opts. backend_calls (snd (ai env_ok (args_object\<lparr>abortSignal := Some (AbortSignal 5)\<rparr>))) = [opts]"
    by (simp add: ai_defs step_defs example_defs log_defs)
  have 3: "\<exists>opts. backend_calls (snd (ai env_ok args_text)) = [opts]"
    by (simp add: ai_defs step_defs example_defs log_defs)
  show ?thesis
    using ai_abortSignal [of env_ok args_signal]
      ai_abortSignal [of env_ok "args_object\<lparr>abortSignal := Some (AbortSignal 5)\<rparr>"]
      ai_abortSignal [of env_ok args_text] 1 2 3
    by (auto simp: options_at_def example_defs)
qed


text \<open>
  C9. Every backend call is made with \<open>experimental_telemetry\<close> set to
  \<open>{isEnabled: true}\<close>, whatever the request and its configuration hold.
\<close>

theorem ai_telemetry:
  "\<forall>opts \<in> set (backend_calls (snd (ai env args))).
     opts ''experimental_telemetry'' = Some (TelemetryVal \<lparr>isEnabled = True\<rparr>)"
  by (auto simp: commonOptions_def dest!: backend_callsD ai_streamText ai_streamObject)

theorem ai_telemetry_witness:
  "originalConfig args_telemetry_off ''experimental_telemetry'' = Some (JObj [(''isEnabled'', JBool False)])
   \<and> options_at ''experimental_telemetry'' (snd (ai env_ok args_telemetry_off)) = [Some (TelemetryVal \<lparr>isEnabled = True\<rparr>)]
   \<and> options_at ''experimental_telemetry'' (snd (ai env_ok args_object)) = [Some (TelemetryVal \<lparr>isEnabled = True\<rparr>)]"
proof -
  have 1: "\<exists>opts. backend_calls (snd (ai env_ok args_telemetry_off)) = [opts]"
    by (simp add: ai_defs step_defs example_defs log_defs)
  have 2: "\<exists>opts. backend_calls (snd (ai env_ok args_object)) = [opts]"
    by (simp add: ai_defs step_defs example_defs log_defs)
  show ?thesis
    using ai_telemetry [of env_ok args_telemetry_off] ai_telemetry [of env_ok args_object] 1 2
    by (auto simp: options_at_def args_telemetry_off_def args_text_def)
qed

subsection \<open>The cache-control flag\<close>

lemma adapter_options_cacheControl_absent:
  "cfg ''cacheControl'' = None \<Longrightarrow> adapter_options cfg ''cacheControl'' = Some (JBool False)"
  by (simp add: adapter_options_def omit_def get_prop_def nullish_coalesce_def map_add_def)

text \<open>A \<open>cacheControl\<close> property that the configuration does have is copied as it
  is, since the configuration is spread after the default.\<close>

lemma adapter_options_cacheControl_present:
  "cfg ''cacheControl'' = Some v \<Longrightarrow> adapter_options cfg ''cacheControl'' = Some v"
  by (simp add: adapter_options_def omit_def map_add_def)

text \<open>Without a custom language model and with a configuration that has no
  \<open>cacheControl\<close> property, the adapter is only ever called with \<open>cacheControl\<close> set
  to \<open>false\<close>; and it is called that way whenever the rules pass and
  \<open>createProvider\<close> succeeds.\<close>

lemma ai_cacheControl_absent:
  assumes "customLanguageModel args = None"
    and "applyAllRules env (providerType (provider args)) (originalMessages args) (originalConfig args) = Inr rule"
    and "config rule ''cacheControl'' = None"
  shows "(\<forall>(m, opts) \<in> set (providerAdapter_calls (snd (ai env args))). opts ''cacheControl'' = Some (JBool False))
    \<and> (rules rule = [] \<and>
        (\<exists>adapter. createProvider env (messages rule) (provider args) (token (provider args))
            (url (provider args)) (config rule) = Inr (Result_ok adapter)) \<longrightarrow>
        adapter_options_at ''cacheControl'' (snd (ai env args)) = [Some (JBool False)])"
  using assms
  by (auto simp: ai_providerAdapter adapter_options_cacheControl_absent adapter_options_at_def split: if_splits)

text \<open>
  C10. The flag is not always normalized. For the request without a custom language
  model whose configuration is \<open>{model: 'gpt-test', cacheControl: undefined}\<close>, the
  expression \<open>config.cacheControl ?? false\<close> of line 156 is \<open>false\<close>, and yet the
  adapter is called with \<open>cacheControl\<close> holding \<open>undefined\<close>: the spread of line 158
  puts the configuration's own property over the normalized one. The same happens with
  \<open>null\<close>.
\<close>

theorem ai_cacheControl_undefined:
  "customLanguageModel args_cache_undefined = None
   \<and> originalConfig args_cache_undefined ''cacheControl'' = Some JUndefined
   \<and> nullish_coalesce (get_prop (originalConfig args_cache_undefined) ''cacheControl'') (JBool False) = JBool False
   \<and> map call_name (snd (ai env_ok args_cache_undefined)) =
       [''applyAllRules'', ''createProvider'', ''providerAdapter'', ''buildTools'', ''smoothStream'', ''streamText'']
   \<and> adapter_options_at ''cacheControl'' (snd (ai env_ok args_cache_undefined)) = [Some JUndefined]
   \<and> originalConfig args_cache_null ''cacheControl'' = Some JNull
   \<and> adapter_options_at ''cacheControl'' (snd (ai env_ok args_cache_null)) = [Some JNull]"
  by (simp add: ai_defs step_defs example_defs log_defs)

end
